theory Spec2Isabelle
  imports Complex_Main
begin

section \<open>The virtual wallet backend (backend_wallet_api.py)\<close>

text \<open>
  The three module-level lists \<open>users_db\<close>, \<open>items_db\<close> and \<open>transactions_db\<close> are the
  state; every service function and endpoint takes the state and returns the state it
  leaves behind, also when it raises, so that a mutation made before a raise would be
  visible. A raised \<open>HTTPException\<close> is the \<open>Inl\<close> of the result.

  Money is a Python float in the source. The model leaves the type of money open (the
  type variable \<open>'m\<close>): the definitions use only the operations the source applies
  to it (\<open><\<close>, \<open>-\<close>, \<open>+\<close>, the literals and the built-in \<open>round(x, 2)\<close>), and the
  built-in rounding is a component of the environment record below. Theorems state the
  order properties of money they rely on through their sort or their hypotheses.

  The library calls (passlib, jose) and the clock are not code of this module; they are
  components of the environment record and arguments of the operations.
\<close>

subsection \<open>Data model\<close>

type_synonym datetime = int  \<comment> \<open>a clock reading, in minutes\<close>

record 'm user =
  u_id :: int
  u_username :: string
  u_hashed_password :: string
  u_balance :: 'm

record 'm item =
  i_id :: int
  i_name :: string
  i_price :: 'm

record 'm transaction =
  t_id :: int
  t_user_id :: int
  t_timestamp :: datetime
  t_type :: string
  t_amount :: 'm
  t_description :: string
  t_item_id :: "int option"

record 'm db =
  users_db :: "'m user list"
  items_db :: "'m item list"
  transactions_db :: "'m transaction list"

text \<open>The request and response schemas (section 4 of the module).\<close>

record user_create =
  uc_username :: string
  uc_password :: string

record 'm spend_request =
  sr_amount :: 'm
  sr_description :: string

record 'm balance_response =
  br_user_id :: int
  br_username :: string
  br_balance :: 'm

record token_response =
  access_token :: string
  token_type :: string

text \<open>The claims of a decoded token: \<open>sub\<close> may be absent.\<close>

record payload =
  sub :: "string option"
  exp :: datetime

datatype jwt_error = JWTError

text \<open>
  The \<open>HTTPException\<close>s the module raises, one constructor per raise site, named after
  the error taxonomy; \<open>status_code\<close> gives the status each one carries.
  \<open>ValidationError\<close> is the rejection of a request body by its schema.
\<close>

datatype error =
    DuplicateUsername     \<comment> \<open>400, "Username already registered"\<close>
  | UserNotFound          \<comment> \<open>404, "User not found"\<close>
  | InsufficientFunds     \<comment> \<open>400, "Insufficient funds in wallet."\<close>
  | ItemNotFound int      \<comment> \<open>404, "Item with ID ... not found."\<close>
  | InvalidCredential     \<comment> \<open>401, "Could not validate credentials"\<close>
  | IncorrectLogin        \<comment> \<open>401, "Incorrect username or password"\<close>
  | ValidationError       \<comment> \<open>422\<close>

fun status_code :: "error \<Rightarrow> nat" where
  "status_code DuplicateUsername = 400"
| "status_code UserNotFound = 404"
| "status_code InsufficientFunds = 400"
| "status_code (ItemNotFound _) = 404"
| "status_code InvalidCredential = 401"
| "status_code IncorrectLogin = 401"
| "status_code ValidationError = 422"

text \<open>What the module calls and does not define.\<close>

record 'm ext =
  py_round2 :: "'m \<Rightarrow> 'm"                            \<comment> \<open>\<open>round(x, 2)\<close>\<close>
  pwd_hash :: "string \<Rightarrow> string"                    \<comment> \<open>\<open>pwd_context.hash\<close>\<close>
  pwd_verify :: "string \<Rightarrow> string \<Rightarrow> bool"          \<comment> \<open>\<open>pwd_context.verify\<close>\<close>
  jwt_encode :: "payload \<Rightarrow> string"                 \<comment> \<open>\<open>jwt.encode\<close> with the module's key\<close>
  jwt_decode :: "datetime \<Rightarrow> string \<Rightarrow> jwt_error + payload"
                                                     \<comment> \<open>\<open>jwt.decode\<close> at a given time\<close>

subsection \<open>Configuration and seed data\<close>

definition INITIAL_BALANCE :: "'m::numeral" where
  "INITIAL_BALANCE = 100"

definition ACCESS_TOKEN_EXPIRE_MINUTES :: int where
  "ACCESS_TOKEN_EXPIRE_MINUTES = 30"

fun get_next_id :: "('r \<Rightarrow> int) \<Rightarrow> 'r list \<Rightarrow> int" where
  "get_next_id ident [] = 1"
| "get_next_id ident (x # xs) = fold max (map ident xs) (ident x) + 1"

definition seed_data :: "('m::field) item list" where
  "seed_data =
     [\<lparr>i_id = 1, i_name = ''The Great Gatsby (Book)'', i_price = 50.00\<rparr>,
      \<lparr>i_id = 2, i_name = ''Coffee Mug'', i_price = 25.50\<rparr>,
      \<lparr>i_id = 3, i_name = ''Notebook (Premium)'', i_price = 10.00\<rparr>,
      \<lparr>i_id = 4, i_name = ''Mystery Box (Low Risk)'', i_price = 49.99\<rparr>,
      \<lparr>i_id = 5, i_name = ''Pen Set (Ballpoint)'', i_price = 15.00\<rparr>]"

text \<open>The state of the module once it is loaded: no user, the seeded items, no transaction.\<close>

definition init_db :: "'m item list \<Rightarrow> 'm db" where
  "init_db items = \<lparr>users_db = [], items_db = items, transactions_db = []\<rparr>"

subsection \<open>Service functions\<close>

definition get_user :: "string \<Rightarrow> 'm db \<Rightarrow> 'm user option" where
  "get_user username s = find (\<lambda>user. u_username user = username) (users_db s)"

definition get_user_by_id :: "int \<Rightarrow> 'm db \<Rightarrow> 'm user option" where
  "get_user_by_id user_id s = find (\<lambda>user. u_id user = user_id) (users_db s)"

definition record_transaction ::
  "int \<Rightarrow> 'm \<Rightarrow> string \<Rightarrow> string \<Rightarrow> int option \<Rightarrow> datetime \<Rightarrow> 'm db \<Rightarrow> 'm transaction \<times> 'm db" where
  "record_transaction user_id amount type description item_id now s =
     (let transaction_id = get_next_id t_id (transactions_db s);
          new_transaction =
            \<lparr>t_id = transaction_id, t_user_id = user_id, t_timestamp = now, t_type = type,
             t_amount = amount, t_description = description, t_item_id = item_id\<rparr>
      in (new_transaction, s\<lparr>transactions_db := transactions_db s @ [new_transaction]\<rparr>))"

definition create_user_record ::
  "('m::numeral) ext \<Rightarrow> datetime \<Rightarrow> user_create \<Rightarrow> 'm db \<Rightarrow> (error + 'm user) \<times> 'm db" where
  "create_user_record X now user s =
     (case get_user (uc_username user) s of
        Some _ \<Rightarrow> (Inl DuplicateUsername, s)
      | None \<Rightarrow>
          (let hashed_password = pwd_hash X (uc_password user);
               user_id = get_next_id u_id (users_db s);
               new_user =
                 \<lparr>u_id = user_id, u_username = uc_username user,
                  u_hashed_password = hashed_password, u_balance = INITIAL_BALANCE\<rparr>;
               s1 = s\<lparr>users_db := users_db s @ [new_user]\<rparr>;
               s2 = snd (record_transaction user_id INITIAL_BALANCE ''REGISTER''
                           ''Initial Wallet Setup'' None now s1)
           in (Inr new_user, s2)))"

text \<open>
  \<open>user['balance'] = v\<close> on the dictionary that \<open>get_user_by_id\<close> returned: the first
  user of the list with that id is the one written.
\<close>

fun set_balance :: "int \<Rightarrow> 'm \<Rightarrow> 'm user list \<Rightarrow> 'm user list" where
  "set_balance user_id v [] = []"
| "set_balance user_id v (user # users) =
     (if u_id user = user_id then user\<lparr>u_balance := v\<rparr> # users
      else user # set_balance user_id v users)"

definition update_user_balance ::
  "('m::{ord,plus,minus}) ext \<Rightarrow> int \<Rightarrow> 'm \<Rightarrow> string \<Rightarrow> 'm db \<Rightarrow> (error + 'm) \<times> 'm db" where
  "update_user_balance X user_id amount operation s =
     (case get_user_by_id user_id s of
        None \<Rightarrow> (Inl UserNotFound, s)
      | Some user \<Rightarrow>
          (case (if operation = ''SUBTRACT'' then
                   (if u_balance user < amount then Inl InsufficientFunds
                    else Inr (u_balance user - amount))
                 else if operation = ''ADD'' then Inr (u_balance user + amount)
                 else Inr (u_balance user)) of
             Inl e \<Rightarrow> (Inl e, s)
           | Inr b \<Rightarrow>
               (let b' = py_round2 X b
                in (Inr b', s\<lparr>users_db := set_balance user_id b' (users_db s)\<rparr>))))"




subsection \<open>The session verifier\<close>

definition get_current_user ::
  "'m ext \<Rightarrow> datetime \<Rightarrow> string \<Rightarrow> 'm db \<Rightarrow> error + 'm user" where
  "get_current_user X now token s =
     (case jwt_decode X now token of
        Inl JWTError \<Rightarrow> Inl InvalidCredential
      | Inr payload \<Rightarrow>
          (case sub payload of
             None \<Rightarrow> Inl InvalidCredential
           | Some username \<Rightarrow>
               (case get_user username s of
                  None \<Rightarrow> Inl InvalidCredential
                | Some user \<Rightarrow> Inr user)))"

subsection \<open>Endpoints\<close>

definition create_access_token :: "'m ext \<Rightarrow> datetime \<Rightarrow> string \<Rightarrow> int option \<Rightarrow> string" where
  "create_access_token X now username expires_delta =
     (let expire = (case expires_delta of
                      Some d \<Rightarrow> now + d
                    | None \<Rightarrow> now + ACCESS_TOKEN_EXPIRE_MINUTES)
      in jwt_encode X \<lparr>sub = Some username, exp = expire\<rparr>)"

definition register_user ::
  "('m::numeral) ext \<Rightarrow> datetime \<Rightarrow> user_create \<Rightarrow> 'm db \<Rightarrow> (error + 'm user) \<times> 'm db" where
  "register_user X now user s = create_user_record X now user s"

definition login_for_access_token ::
  "'m ext \<Rightarrow> datetime \<Rightarrow> string \<Rightarrow> string \<Rightarrow> 'm db \<Rightarrow> error + token_response" where
  "login_for_access_token X now username password s =
     (case get_user username s of
        None \<Rightarrow> Inl IncorrectLogin
      | Some user \<Rightarrow>
          if \<not> pwd_verify X password (u_hashed_password user) then Inl IncorrectLogin
          else Inr \<lparr>access_token =
                      create_access_token X now (u_username user) (Some ACCESS_TOKEN_EXPIRE_MINUTES),
                    token_type = ''bearer''\<rparr>)"

definition get_balance :: "'m user \<Rightarrow> 'm balance_response" where
  "get_balance current_user =
     \<lparr>br_user_id = u_id current_user, br_username = u_username current_user,
      br_balance = u_balance current_user\<rparr>"

definition spend_money ::
  "('m::{ord,plus,minus}) ext \<Rightarrow> datetime \<Rightarrow> 'm spend_request \<Rightarrow> 'm user \<Rightarrow> 'm db
     \<Rightarrow> (error + 'm balance_response) \<times> 'm db" where
  "spend_money X now spend_data current_user s =
     (let user_id = u_id current_user
      in case update_user_balance X user_id (sr_amount spend_data) ''SUBTRACT'' s of
           (Inl e, s1) \<Rightarrow> (Inl e, s1)
         | (Inr new_balance, s1) \<Rightarrow>
             (let s2 = snd (record_transaction user_id (sr_amount spend_data) ''SPEND''
                              (sr_description spend_data) None now s1)
              in (Inr \<lparr>br_user_id = user_id, br_username = u_username current_user,
                       br_balance = new_balance\<rparr>, s2)))"

definition list_items :: "'m db \<Rightarrow> 'm item list" where
  "list_items s = items_db s"

definition buy_item ::
  "('m::{ord,plus,minus}) ext \<Rightarrow> datetime \<Rightarrow> int \<Rightarrow> 'm user \<Rightarrow> 'm db
     \<Rightarrow> (error + 'm balance_response) \<times> 'm db" where
  "buy_item X now item_id current_user s =
     (let user_id = u_id current_user
      in case find (\<lambda>i. i_id i = item_id) (items_db s) of
           None \<Rightarrow> (Inl (ItemNotFound item_id), s)
         | Some item \<Rightarrow>
             (let item_price = i_price item
              in case update_user_balance X user_id item_price ''SUBTRACT'' s of
                   (Inl e, s1) \<Rightarrow> (Inl e, s1)
                 | (Inr new_balance, s1) \<Rightarrow>
                     (let s2 = snd (record_transaction user_id item_price ''BUY''
                                      (''Purchased: '' @ i_name item) (Some item_id) now s1)
                      in (Inr \<lparr>br_user_id = user_id, br_username = u_username current_user,
                               br_balance = new_balance\<rparr>, s2))))"

definition get_all_transactions :: "'m db \<Rightarrow> 'm transaction list" where
  "get_all_transactions s = transactions_db s"

definition get_all_users :: "'m db \<Rightarrow> 'm user list" where
  "get_all_users s = users_db s"

subsection \<open>Requests\<close>

text \<open>
  One request to the application at a clock reading. An endpoint that depends on
  \<open>get_current_user\<close> is entered only when the verifier returned a user; the body of a
  request is checked against its schema (password of at least 6 characters, amount
  greater than zero) before the endpoint runs. A request that is rejected leaves the
  state as its handler left it, and the server goes on with the next request.
\<close>

datatype 'm request =
    Register user_create
  | Login string string
  | GetBalance string
  | Spend string "'m spend_request"
  | ListItems
  | Buy string int
  | GetTransactions
  | GetUsers

datatype 'm response =
    RUser "'m user"
  | RToken token_response
  | RBalance "'m balance_response"
  | RItems "'m item list"
  | RTransactions "'m transaction list"
  | RUsers "'m user list"

fun handle ::
  "('m::{ord,zero,numeral,minus}) ext \<Rightarrow> datetime \<Rightarrow> 'm request \<Rightarrow> 'm db
     \<Rightarrow> (error + 'm response) \<times> 'm db" where
  "handle X now (Register user) s =
     (if length (uc_password user) < 6 then (Inl ValidationError, s)
      else map_prod (map_sum id RUser) id (register_user X now user s))"
| "handle X now (Login username password) s =
     (map_sum id RToken (login_for_access_token X now username password s), s)"
| "handle X now (GetBalance token) s =
     (case get_current_user X now token s of
        Inl e \<Rightarrow> (Inl e, s)
      | Inr current_user \<Rightarrow> (Inr (RBalance (get_balance current_user)), s))"
| "handle X now (Spend token spend_data) s =
     (case get_current_user X now token s of
        Inl e \<Rightarrow> (Inl e, s)
      | Inr current_user \<Rightarrow>
          if \<not> 0 < sr_amount spend_data then (Inl ValidationError, s)
          else map_prod (map_sum id RBalance) id (spend_money X now spend_data current_user s))"
| "handle X now ListItems s = (Inr (RItems (list_items s)), s)"
| "handle X now (Buy token item_id) s =
     (case get_current_user X now token s of
        Inl e \<Rightarrow> (Inl e, s)
      | Inr current_user \<Rightarrow>
          map_prod (map_sum id RBalance) id (buy_item X now item_id current_user s))"
| "handle X now GetTransactions s = (Inr (RTransactions (get_all_transactions s)), s)"
| "handle X now GetUsers s = (Inr (RUsers (get_all_users s)), s)"

text \<open>The state after a sequence of requests, each with its clock reading.\<close>

fun serve :: "('m::{ord,zero,numeral,minus}) ext \<Rightarrow> (datetime \<times> 'm request) list \<Rightarrow> 'm db \<Rightarrow> 'm db" where
  "serve X [] s = s"
| "serve X ((now, r) # rs) s = serve X rs (snd (handle X now r s))"

subsection \<open>What one request may do to the tables\<close>

text \<open>
  The items stay; the users keep their ids, with at most one new user at the end, whose id
  is the next one; the ledger keeps its entries, with at most one new entry at the end,
  whose id is the next one.
\<close>

definition table_step :: "'m db \<Rightarrow> 'm db \<Rightarrow> bool" where
  "table_step s s' \<longleftrightarrow>
     items_db s' = items_db s \<and>
     (map u_id (users_db s') = map u_id (users_db s) \<or>
      map u_id (users_db s') = map u_id (users_db s) @ [get_next_id u_id (users_db s)]) \<and>
     (transactions_db s' = transactions_db s \<or>
      (\<exists>t. transactions_db s' = transactions_db s @ [t] \<and>
           t_id t = get_next_id t_id (transactions_db s)))"

subsection \<open>A concrete environment and the scenario of the specification\<close>

text \<open>
  For evaluating the model on concrete requests: money as exact decimal fractions with
  rounding to two places (ties to the even digit), a hash that only tags the password,
  and tokens that are the user name itself (the empty token does not decode).
\<close>

definition round_half_even :: "rat \<Rightarrow> int" where
  "round_half_even x =
     (let f = \<lfloor>x\<rfloor>; d = x - of_int f
      in if d < 1 / 2 then f else if 1 / 2 < d then f + 1 else if even f then f else f + 1)"

definition decimal_round2 :: "rat \<Rightarrow> rat" where
  "decimal_round2 x = of_int (round_half_even (x * 100)) / 100"

definition example_ext :: "rat ext" where
  "example_ext =
     \<lparr>py_round2 = decimal_round2,
      pwd_hash = (\<lambda>password. ''bcrypt:'' @ password),
      pwd_verify = (\<lambda>password hashed. hashed = ''bcrypt:'' @ password),
      jwt_encode = (\<lambda>p. case sub p of Some username \<Rightarrow> username | None \<Rightarrow> []),
      jwt_decode = (\<lambda>now token. if token = [] then Inl JWTError
                                 else Inr \<lparr>sub = Some token, exp = now + 30\<rparr>)\<rparr>"

definition alice :: user_create where
  "alice = \<lparr>uc_username = ''alice'', uc_password = ''secret1''\<rparr>"

text \<open>Register alice, spend 30, buy item 2, try to spend 1000.\<close>

definition scenario :: "(datetime \<times> rat request) list" where
  "scenario =
     [(0, Register alice),
      (1, Spend ''alice'' \<lparr>sr_amount = 30, sr_description = ''General Spend''\<rparr>),
      (2, Buy ''alice'' 2),
      (3, Spend ''alice'' \<lparr>sr_amount = 1000, sr_description = ''General Spend''\<rparr>)]"

definition after_scenario :: "rat db" where
  "after_scenario = serve example_ext scenario (init_db seed_data)"



section \<open>Properties\<close>

subsection \<open>Identifiers, balances written in place, ledger entries\<close>

lemma get_next_id_Max:
  "db \<noteq> [] \<Longrightarrow> get_next_id ident db = Max (ident ` set db) + 1"
  by (cases db) (simp_all add: Max.set_eq_fold [symmetric])

lemma get_next_id_greater: "r \<in> set db \<Longrightarrow> ident r < get_next_id ident db"
proof -
  assume r: "r \<in> set db"
  then have ne: "db \<noteq> []" by auto
  have "ident r \<le> Max (ident ` set db)" using r by simp
  then show ?thesis using get_next_id_Max [OF ne, of ident] by simp
qed

lemma sorted_wrt_snoc_next:
  "sorted_wrt (<) (map ident db) \<Longrightarrow> sorted_wrt (<) (map ident db @ [get_next_id ident db])"
  by (auto simp: sorted_wrt_append get_next_id_greater)

lemma map_u_id_set_balance [simp]: "map u_id (set_balance i v us) = map u_id us"
  by (induction us) auto

lemma set_balance_balances:
  "w \<in> set (set_balance i v us) \<Longrightarrow> w \<in> set us \<or> u_balance w = v"
  by (induction us) (auto split: if_splits)

lemma set_balance_list_update:
  "find (\<lambda>u. u_id u = i) us = Some user \<Longrightarrow>
   \<exists>k<length us. us ! k = user \<and> (\<forall>j<k. u_id (us ! j) \<noteq> i) \<and>
     set_balance i v us = us[k := user\<lparr>u_balance := v\<rparr>]"
proof (induction us)
  case Nil
  then show ?case by simp
next
  case (Cons a us)
  show ?case
  proof (cases "u_id a = i")
    case True
    with Cons.prems have "a = user" by simp
    with True show ?thesis by (intro exI [of _ 0]) simp
  next
    case False
    with Cons.prems have "find (\<lambda>u. u_id u = i) us = Some user" by simp
    from Cons.IH [OF this] obtain k where k: "k < length us" "us ! k = user"
      "\<forall>j<k. u_id (us ! j) \<noteq> i" "set_balance i v us = us[k := user\<lparr>u_balance := v\<rparr>]"
      by blast
    have "\<forall>j<Suc k. u_id ((a # us) ! j) \<noteq> i"
      using False k(3) by (auto simp: nth_Cons split: nat.splits)
    with False k show ?thesis by (intro exI [of _ "Suc k"]) simp
  qed
qed

lemma record_transaction_eq:
  "record_transaction user_id amount type description item_id now s =
     (\<lparr>t_id = get_next_id t_id (transactions_db s), t_user_id = user_id, t_timestamp = now,
       t_type = type, t_amount = amount, t_description = description, t_item_id = item_id\<rparr>,
      s\<lparr>transactions_db := transactions_db s @
          [\<lparr>t_id = get_next_id t_id (transactions_db s), t_user_id = user_id, t_timestamp = now,
            t_type = type, t_amount = amount, t_description = description,
            t_item_id = item_id\<rparr>]\<rparr>)"
  by (simp add: record_transaction_def Let_def)

lemma update_user_balance_effect:
  "snd (update_user_balance X user_id amount operation s) = s \<and>
     isl (fst (update_user_balance X user_id amount operation s)) \<or>
   (\<exists>b. update_user_balance X user_id amount operation s =
          (Inr b, s\<lparr>users_db := set_balance user_id b (users_db s)\<rparr>))"
  by (simp add: update_user_balance_def Let_def split: option.splits)

lemma update_user_balance_subtract:
  "get_user_by_id user_id s = Some user \<Longrightarrow>
   update_user_balance X user_id amount ''SUBTRACT'' s =
     (if u_balance user < amount then (Inl InsufficientFunds, s)
      else (Inr (py_round2 X (u_balance user - amount)),
            s\<lparr>users_db := set_balance user_id (py_round2 X (u_balance user - amount))
                             (users_db s)\<rparr>))"
  by (simp add: update_user_balance_def Let_def)

lemma table_step_refl: "table_step s s"
  by (simp add: table_step_def)

lemma create_user_record_table_step:
  "table_step s (snd (create_user_record X now user s))"
  by (simp add: create_user_record_def record_transaction_eq table_step_def Let_def
      split: option.splits)

lemma spend_money_table_step:
  "table_step s (snd (spend_money X now spend_data current_user s))"
  using update_user_balance_effect [of X "u_id current_user" "sr_amount spend_data" "''SUBTRACT''" s]
  by (auto simp: spend_money_def record_transaction_eq table_step_def Let_def isl_def
      split: prod.splits sum.splits)

lemma buy_item_table_step:
  "table_step s (snd (buy_item X now item_id current_user s))"
proof (cases "find (\<lambda>i. i_id i = item_id) (items_db s)")
  case None
  then show ?thesis by (simp add: buy_item_def table_step_refl)
next
  case (Some item)
  show ?thesis
    using update_user_balance_effect [of X "u_id current_user" "i_price item" "''SUBTRACT''" s] Some
    by (auto simp: buy_item_def record_transaction_eq table_step_def Let_def isl_def
        split: prod.splits sum.splits)
qed

lemma handle_table_step: "table_step s (snd (handle X now r s))"
proof (cases r)
  case (Register user)
  then show ?thesis
    by (simp add: register_user_def create_user_record_table_step table_step_refl)
next
  case (Spend token spend_data)
  then show ?thesis
    by (simp add: spend_money_table_step table_step_refl split: sum.splits)
next
  case (Buy token item_id)
  then show ?thesis
    by (simp add: buy_item_table_step table_step_refl split: sum.splits)
qed (simp_all add: table_step_refl split: sum.splits)

lemma table_step_increasing:
  assumes "table_step s s'"
    and "sorted_wrt (<) (map u_id (users_db s))"
    and "sorted_wrt (<) (map t_id (transactions_db s))"
  shows "sorted_wrt (<) (map u_id (users_db s')) \<and> sorted_wrt (<) (map t_id (transactions_db s'))"
proof
  from assms(1) have "map u_id (users_db s') = map u_id (users_db s) \<or>
      map u_id (users_db s') = map u_id (users_db s) @ [get_next_id u_id (users_db s)]"
    by (simp add: table_step_def)
  then show "sorted_wrt (<) (map u_id (users_db s'))"
    using assms(2) sorted_wrt_snoc_next [of u_id "users_db s"] by auto
next
  from assms(1) have "transactions_db s' = transactions_db s \<or>
      (\<exists>t. transactions_db s' = transactions_db s @ [t] \<and>
           t_id t = get_next_id t_id (transactions_db s))"
    by (simp add: table_step_def)
  then show "sorted_wrt (<) (map t_id (transactions_db s'))"
    using assms(3) sorted_wrt_snoc_next [of t_id "transactions_db s"] by auto
qed

lemma serve_increasing:
  "sorted_wrt (<) (map u_id (users_db s)) \<Longrightarrow> sorted_wrt (<) (map t_id (transactions_db s)) \<Longrightarrow>
   sorted_wrt (<) (map u_id (users_db (serve X rs s))) \<and>
   sorted_wrt (<) (map t_id (transactions_db (serve X rs s)))"
proof (induction rs arbitrary: s)
  case Nil
  then show ?case by simp
next
  case (Cons a rs)
  obtain now r where a: "a = (now, r)" by (cases a)
  from table_step_increasing [OF handle_table_step Cons.prems, of X now r]
  show ?case using Cons.IH [of "snd (handle X now r s)"] by (simp add: a)
qed

lemma serve_ledger_extends:
  "\<exists>ts. transactions_db (serve X rs s) = transactions_db s @ ts"
proof (induction rs arbitrary: s)
  case Nil
  then show ?case by simp
next
  case (Cons a rs)
  obtain now r where a: "a = (now, r)" by (cases a)
  from handle_table_step [of s X now r]
  obtain us where us: "transactions_db (snd (handle X now r s)) = transactions_db s @ us"
    by (auto simp: table_step_def)
  from Cons.IH [of "snd (handle X now r s)"] obtain ts
    where "transactions_db (serve X rs (snd (handle X now r s))) =
           transactions_db (snd (handle X now r s)) @ ts" by blast
  with us show ?case by (simp add: a)
qed

lemma strict_sorted_distinct: "sorted_wrt (<) (xs :: int list) \<Longrightarrow> distinct xs"
  by (simp add: strict_sorted_iff)

text \<open>The state after the scenario, computed once.\<close>

lemma after_scenario_value:
  "after_scenario =
     \<lparr>users_db =
        [\<lparr>u_id = 1, u_username = ''alice'', u_hashed_password = ''bcrypt:secret1'',
          u_balance = 89 / 2\<rparr>],
      items_db = seed_data,
      transactions_db =
        [\<lparr>t_id = 1, t_user_id = 1, t_timestamp = 0, t_type = ''REGISTER'', t_amount = 100,
          t_description = ''Initial Wallet Setup'', t_item_id = None\<rparr>,
         \<lparr>t_id = 2, t_user_id = 1, t_timestamp = 1, t_type = ''SPEND'', t_amount = 30,
          t_description = ''General Spend'', t_item_id = None\<rparr>,
         \<lparr>t_id = 3, t_user_id = 1, t_timestamp = 2, t_type = ''BUY'', t_amount = 51 / 2,
          t_description = ''Purchased: Coffee Mug'', t_item_id = Some 2\<rparr>]\<rparr>"
  by (simp add: after_scenario_def scenario_def example_ext_def alice_def init_db_def seed_data_def
      register_user_def create_user_record_def get_user_def get_user_by_id_def
      record_transaction_def INITIAL_BALANCE_def get_current_user_def spend_money_def buy_item_def
      update_user_balance_def decimal_round2_def round_half_even_def Let_def)

subsection \<open>Non-negative balances\<close>

lemma update_subtract_nonneg:
  fixes X :: "('m::linordered_idom) ext"
  assumes r: "\<forall>x. 0 \<le> x \<longrightarrow> 0 \<le> py_round2 X x"
    and inv: "\<forall>u\<in>set (users_db s). 0 \<le> u_balance u"
  shows "\<forall>u\<in>set (users_db (snd (update_user_balance X user_id amount ''SUBTRACT'' s))).
           0 \<le> u_balance u"
proof (cases "get_user_by_id user_id s")
  case None
  then show ?thesis using inv by (simp add: update_user_balance_def)
next
  case (Some user)
  then have "user \<in> set (users_db s)"
    by (auto simp: get_user_by_id_def find_Some_iff)
  with inv have b: "0 \<le> u_balance user" by blast
  show ?thesis
  proof (cases "u_balance user < amount")
    case True
    with Some show ?thesis using inv by (simp add: update_user_balance_subtract)
  next
    case False
    with b r have "0 \<le> py_round2 X (u_balance user - amount)" by simp
    with False Some inv show ?thesis
      by (auto simp: update_user_balance_subtract dest!: set_balance_balances)
  qed
qed

lemma spend_money_users:
  "users_db (snd (spend_money X now spend_data current_user s)) =
   users_db (snd (update_user_balance X (u_id current_user) (sr_amount spend_data) ''SUBTRACT'' s))"
  by (simp add: spend_money_def record_transaction_eq Let_def split: prod.splits sum.splits)

lemma buy_item_users:
  "find (\<lambda>i. i_id i = item_id) (items_db s) = Some item \<Longrightarrow>
   users_db (snd (buy_item X now item_id current_user s)) =
   users_db (snd (update_user_balance X (u_id current_user) (i_price item) ''SUBTRACT'' s))"
  by (simp add: buy_item_def record_transaction_eq Let_def split: prod.splits sum.splits)

lemma handle_nonneg:
  fixes X :: "('m::linordered_idom) ext"
  assumes r: "\<forall>x. 0 \<le> x \<longrightarrow> 0 \<le> py_round2 X x"
    and inv: "\<forall>u\<in>set (users_db s). 0 \<le> u_balance u"
  shows "\<forall>u\<in>set (users_db (snd (handle X now req s))). 0 \<le> u_balance u"
proof (cases req)
  case (Register user)
  then show ?thesis using inv
    by (auto simp: register_user_def create_user_record_def record_transaction_eq Let_def
        INITIAL_BALANCE_def split: option.splits)
next
  case (Spend token spend_data)
  then show ?thesis
    using inv update_subtract_nonneg [OF r inv]
    by (simp add: spend_money_users split: sum.splits)
next
  case (Buy token item_id)
  show ?thesis
  proof (cases "find (\<lambda>i. i_id i = item_id) (items_db s)")
    case None
    with Buy inv show ?thesis by (simp add: buy_item_def split: sum.splits)
  next
    case (Some item)
    with Buy show ?thesis
      using inv update_subtract_nonneg [OF r inv]
      by (simp add: buy_item_users split: sum.splits)
  qed
qed (use inv in \<open>simp_all split: sum.splits\<close>)

lemma serve_nonneg:
  fixes X :: "('m::linordered_idom) ext"
  assumes r: "\<forall>x. 0 \<le> x \<longrightarrow> 0 \<le> py_round2 X x"
  shows "\<forall>u\<in>set (users_db s). 0 \<le> u_balance u \<Longrightarrow>
         \<forall>u\<in>set (users_db (serve X rs s)). 0 \<le> u_balance u"
proof (induction rs arbitrary: s)
  case Nil
  then show ?case by simp
next
  case (Cons a rs)
  obtain now req where a: "a = (now, req)" by (cases a)
  from handle_nonneg [OF r Cons.prems, of now req]
  show ?case using Cons.IH [of "snd (handle X now req s)"] by (simp add: a)
qed

lemma round_half_even_nonneg: "0 \<le> x \<Longrightarrow> 0 \<le> round_half_even x"
proof -
  assume "0 \<le> x"
  then have "0 \<le> \<lfloor>x\<rfloor>" by simp
  then show ?thesis by (simp add: round_half_even_def Let_def)
qed

lemma decimal_round2_nonneg: "0 \<le> x \<Longrightarrow> 0 \<le> decimal_round2 x"
  by (simp add: decimal_round2_def round_half_even_nonneg)

text \<open>
  C1. Starting from the state of the loaded module (no user, no transaction, any items),
  after every sequence of requests (registrations, spends, purchases and the reading
  endpoints, accepted or rejected) every user's balance is at least 0. Since the
  sequence is arbitrary this holds after each request of it. Money is an ordered ring
  here, and the built-in rounding is taken to send non-negative values to non-negative
  values.
\<close>

theorem balance_never_negative:
  fixes X :: "('m::linordered_idom) ext"
  assumes "\<forall>x. 0 \<le> x \<longrightarrow> 0 \<le> py_round2 X x"
  shows "\<forall>u\<in>set (users_db (serve X rs (init_db items))). 0 \<le> u_balance u"
  by (rule serve_nonneg [OF assms]) (simp add: init_db_def)

theorem balance_never_negative_witness:
  "map u_balance (users_db after_scenario) = [89 / 2]
   \<and> 0 \<le> u_balance (hd (users_db after_scenario))"
proof -
  have r: "\<forall>x. 0 \<le> x \<longrightarrow> 0 \<le> py_round2 example_ext x"
    by (simp add: example_ext_def decimal_round2_nonneg)
  have ev: "map u_balance (users_db after_scenario) = [89 / 2]"
    by (simp add: after_scenario_value)
  then have "hd (users_db after_scenario) \<in> set (users_db after_scenario)"
    by (cases "users_db after_scenario") simp_all
  with balance_never_negative [OF r, of scenario seed_data] ev
  show ?thesis by (simp add: after_scenario_def)
qed

subsection \<open>Identifiers\<close>

text \<open>
  C6. \<open>get_next_id\<close> gives 1 on an empty table and the greatest id plus one on any
  other, which is above every id of the table; a new ledger entry gets that id; and in
  every state reached from the loaded module the ids of the users and of the
  transactions are strictly increasing in insertion order, hence distinct.
\<close>

theorem ids_fresh_increasing:
  "get_next_id ident [] = 1
   \<and> (db \<noteq> [] \<longrightarrow> get_next_id ident db = Max (ident ` set db) + 1)
   \<and> (\<forall>r\<in>set db. ident r < get_next_id ident db)
   \<and> t_id (fst (record_transaction user_id amount type description item_id now s)) =
       get_next_id t_id (transactions_db s)
   \<and> sorted_wrt (<) (map u_id (users_db (serve X rs (init_db items))))
   \<and> distinct (map u_id (users_db (serve X rs (init_db items))))
   \<and> sorted_wrt (<) (map t_id (transactions_db (serve X rs (init_db items))))
   \<and> distinct (map t_id (transactions_db (serve X rs (init_db items))))"
proof -
  have inc: "sorted_wrt (<) (map u_id (users_db (serve X rs (init_db items)))) \<and>
      sorted_wrt (<) (map t_id (transactions_db (serve X rs (init_db items))))"
    by (rule serve_increasing) (simp_all add: init_db_def)
  then have "distinct (map u_id (users_db (serve X rs (init_db items))))"
    and "distinct (map t_id (transactions_db (serve X rs (init_db items))))"
    by (simp_all add: strict_sorted_distinct)
  with inc show ?thesis
    by (simp add: get_next_id_Max get_next_id_greater record_transaction_eq)
qed

theorem ids_fresh_increasing_witness:
  "get_next_id i_id (seed_data :: rat item list) = 6
   \<and> map t_id (transactions_db after_scenario) = [1, 2, 3]
   \<and> distinct (map t_id (transactions_db after_scenario))
   \<and> map u_id (users_db after_scenario) = [1]"
proof -
  have ne: "(seed_data :: rat item list) \<noteq> []" by (simp add: seed_data_def)
  have mx: "Max (i_id ` set (seed_data :: rat item list)) = 5" by (simp add: seed_data_def)
  have "(seed_data :: rat item list) \<noteq> [] \<longrightarrow>
      get_next_id i_id (seed_data :: rat item list) =
        Max (i_id ` set (seed_data :: rat item list)) + 1"
    by (rule conjunct1 [OF conjunct2 [OF ids_fresh_increasing]])
  with ne mx have next_id: "get_next_id i_id (seed_data :: rat item list) = 6" by simp
  have ev: "map t_id (transactions_db after_scenario) = [1, 2, 3]"
    "map u_id (users_db after_scenario) = [1]" by (simp_all add: after_scenario_value)
  then have "distinct (map t_id (transactions_db after_scenario))" by simp
  with next_id ev show ?thesis by simp
qed

subsection \<open>The ledger\<close>

text \<open>
  C7. Every request leaves the ledger as it was or with exactly one entry more at its
  end; after any sequence of requests the former ledger is a prefix of the ledger; and
  \<open>record_transaction\<close> has no failing path: it returns the new entry and the ledger
  extended by it.
\<close>

theorem ledger_append_only:
  "(transactions_db (snd (handle X now r s)) = transactions_db s
      \<or> (\<exists>t. transactions_db (snd (handle X now r s)) = transactions_db s @ [t]))
   \<and> (\<exists>ts. transactions_db (serve X rs s) = transactions_db s @ ts)
   \<and> transactions_db (snd (record_transaction user_id amount type description item_id now' s)) =
       transactions_db s @ [fst (record_transaction user_id amount type description item_id now' s)]"
  using handle_table_step [of s X now r] serve_ledger_extends [of X rs s]
  by (auto simp: table_step_def record_transaction_eq)

subsection \<open>Failed operations\<close>

text \<open>
  C5. When creating a user, updating a balance, spending, buying, or any request fails,
  the state it leaves is the state it found: users (with their balances as stored, not
  rounded), items and ledger.
\<close>

theorem failed_operation_changes_nothing:
  "(isl (fst (create_user_record X now user s)) \<longrightarrow> snd (create_user_record X now user s) = s)
   \<and> (isl (fst (update_user_balance X user_id amount operation s)) \<longrightarrow>
        snd (update_user_balance X user_id amount operation s) = s)
   \<and> (isl (fst (spend_money X now spend_data current_user s)) \<longrightarrow>
        snd (spend_money X now spend_data current_user s) = s)
   \<and> (isl (fst (buy_item X now item_id current_user s)) \<longrightarrow>
        snd (buy_item X now item_id current_user s) = s)
   \<and> (isl (fst (handle X now r s)) \<longrightarrow> snd (handle X now r s) = s)"
proof -
  have c: "isl (fst (create_user_record X now user s)) \<longrightarrow> snd (create_user_record X now user s) = s"
    for now user
    by (simp add: create_user_record_def Let_def split: option.splits)
  have u: "isl (fst (update_user_balance X user_id amount operation s)) \<longrightarrow>
        snd (update_user_balance X user_id amount operation s) = s"
    for user_id amount operation
    using update_user_balance_effect [of X user_id amount operation s] by auto
  have sp: "isl (fst (spend_money X now spend_data current_user s)) \<longrightarrow>
        snd (spend_money X now spend_data current_user s) = s"
    for now spend_data current_user
    using u [of "u_id current_user" "sr_amount spend_data" "''SUBTRACT''"]
    by (auto simp: spend_money_def Let_def split: prod.splits sum.splits)
  have b: "isl (fst (buy_item X now item_id current_user s)) \<longrightarrow>
        snd (buy_item X now item_id current_user s) = s"
    for now item_id current_user
  proof (cases "find (\<lambda>i. i_id i = item_id) (items_db s)")
    case None
    then show ?thesis by (simp add: buy_item_def)
  next
    case (Some item)
    then show ?thesis
      using u [of "u_id current_user" "i_price item" "''SUBTRACT''"]
      by (auto simp: buy_item_def Let_def split: prod.splits sum.splits)
  qed
  have h: "isl (fst (handle X now r s)) \<longrightarrow> snd (handle X now r s) = s"
  proof (cases r)
    case (Register user)
    then show ?thesis using c [of now user] by (simp add: register_user_def isl_map_sum)
  next
    case (Spend token spend_data)
    then show ?thesis
      using sp by (auto simp: isl_map_sum split: sum.splits)
  next
    case (Buy token item_id)
    then show ?thesis
      using b by (auto simp: isl_map_sum split: sum.splits)
  qed (simp_all split: sum.splits)
  from c u sp b h show ?thesis by blast
qed

theorem failed_operation_changes_nothing_witness:
  "fst (create_user_record example_ext 4 alice after_scenario) = Inl DuplicateUsername
   \<and> snd (create_user_record example_ext 4 alice after_scenario) = after_scenario
   \<and> fst (update_user_balance example_ext 7 1 ''SUBTRACT'' after_scenario) = Inl UserNotFound
   \<and> snd (update_user_balance example_ext 7 1 ''SUBTRACT'' after_scenario) = after_scenario
   \<and> fst (spend_money example_ext 4 \<lparr>sr_amount = 1000, sr_description = ''General Spend''\<rparr>
            (hd (users_db after_scenario)) after_scenario) = Inl InsufficientFunds
   \<and> snd (spend_money example_ext 4 \<lparr>sr_amount = 1000, sr_description = ''General Spend''\<rparr>
            (hd (users_db after_scenario)) after_scenario) = after_scenario
   \<and> fst (buy_item example_ext 4 999 (hd (users_db after_scenario)) after_scenario) =
        Inl (ItemNotFound 999)
   \<and> snd (buy_item example_ext 4 999 (hd (users_db after_scenario)) after_scenario) =
        after_scenario
   \<and> fst (handle example_ext 4 (Buy ''alice'' 1) after_scenario) = Inl InsufficientFunds
   \<and> snd (handle example_ext 4 (Buy ''alice'' 1) after_scenario) = after_scenario"
proof -
  let ?sd = "\<lparr>sr_amount = 1000 :: rat, sr_description = ''General Spend''\<rparr>"
  let ?cu = "hd (users_db after_scenario)"
  note ev = after_scenario_value example_ext_def alice_def seed_data_def get_user_def
    get_user_by_id_def create_user_record_def update_user_balance_def spend_money_def
    buy_item_def get_current_user_def Let_def
  have c: "isl (fst (create_user_record example_ext 4 alice after_scenario))"
    "fst (create_user_record example_ext 4 alice after_scenario) = Inl DuplicateUsername"
    by (simp_all add: ev)
  have u: "isl (fst (update_user_balance example_ext 7 1 ''SUBTRACT'' after_scenario))"
    "fst (update_user_balance example_ext 7 1 ''SUBTRACT'' after_scenario) = Inl UserNotFound"
    by (simp_all add: ev)
  have sp: "isl (fst (spend_money example_ext 4 ?sd ?cu after_scenario))"
    "fst (spend_money example_ext 4 ?sd ?cu after_scenario) = Inl InsufficientFunds"
    by (simp_all add: ev)
  have b: "isl (fst (buy_item example_ext 4 999 ?cu after_scenario))"
    "fst (buy_item example_ext 4 999 ?cu after_scenario) = Inl (ItemNotFound 999)"
    by (simp_all add: ev)
  have h: "isl (fst (handle example_ext 4 (Buy ''alice'' 1) after_scenario))"
    "fst (handle example_ext 4 (Buy ''alice'' 1) after_scenario) = Inl InsufficientFunds"
    by (simp_all add: ev)
  from failed_operation_changes_nothing [of example_ext 4 alice after_scenario 7 1 "''SUBTRACT''"
      ?sd ?cu 999 "Buy ''alice'' 1"] c u sp b h
  show ?thesis by blast
qed

subsection \<open>Registration\<close>

text \<open>
  C4. When some user of the identity store has the requested name, \<open>create_user_record\<close>
  fails with \<open>DuplicateUsername\<close> and leaves the state as it was. Otherwise it appends
  exactly one user, with the next id and the balance 100, and exactly one transaction
  of type REGISTER, of amount 100, for that user's id; it returns the new user.
\<close>

theorem create_user_record_spec:
  "((\<exists>u\<in>set (users_db s). u_username u = uc_username user) \<longrightarrow>
      create_user_record X now user s = (Inl DuplicateUsername, s))
   \<and> ((\<forall>u\<in>set (users_db s). u_username u \<noteq> uc_username user) \<longrightarrow>
      create_user_record X now user s =
        (Inr \<lparr>u_id = get_next_id u_id (users_db s), u_username = uc_username user,
              u_hashed_password = pwd_hash X (uc_password user), u_balance = 100\<rparr>,
         s\<lparr>users_db := users_db s @
              [\<lparr>u_id = get_next_id u_id (users_db s), u_username = uc_username user,
                u_hashed_password = pwd_hash X (uc_password user), u_balance = 100\<rparr>],
           transactions_db := transactions_db s @
              [\<lparr>t_id = get_next_id t_id (transactions_db s),
                t_user_id = get_next_id u_id (users_db s), t_timestamp = now,
                t_type = ''REGISTER'', t_amount = 100,
                t_description = ''Initial Wallet Setup'', t_item_id = None\<rparr>]\<rparr>))"
proof (cases "get_user (uc_username user) s")
  case None
  then have "\<forall>u\<in>set (users_db s). u_username u \<noteq> uc_username user"
    by (simp add: get_user_def find_None_iff)
  with None show ?thesis
    by (simp add: create_user_record_def record_transaction_eq Let_def INITIAL_BALANCE_def)
next
  case (Some u)
  then have "\<exists>u\<in>set (users_db s). u_username u = uc_username user"
    by (auto simp: get_user_def find_Some_iff)
  with Some show ?thesis by (auto simp: create_user_record_def)
qed

theorem create_user_record_spec_witness:
  "create_user_record example_ext 0 alice (init_db seed_data) =
     (Inr \<lparr>u_id = 1, u_username = ''alice'', u_hashed_password = ''bcrypt:secret1'',
           u_balance = 100\<rparr>,
      \<lparr>users_db = [\<lparr>u_id = 1, u_username = ''alice'', u_hashed_password = ''bcrypt:secret1'',
                    u_balance = 100\<rparr>],
       items_db = seed_data,
       transactions_db = [\<lparr>t_id = 1, t_user_id = 1, t_timestamp = 0, t_type = ''REGISTER'',
                           t_amount = 100, t_description = ''Initial Wallet Setup'',
                           t_item_id = None\<rparr>]\<rparr>)
   \<and> create_user_record example_ext 4 alice after_scenario = (Inl DuplicateUsername, after_scenario)"
proof -
  have fresh: "\<forall>u\<in>set (users_db (init_db seed_data :: rat db)). u_username u \<noteq> uc_username alice"
    by (simp add: init_db_def)
  have taken: "\<exists>u\<in>set (users_db after_scenario). u_username u = uc_username alice"
    by (simp add: after_scenario_value alice_def)
  from create_user_record_spec [of "init_db seed_data" alice example_ext 0] fresh
    create_user_record_spec [of after_scenario alice example_ext 4] taken
  show ?thesis by (simp add: init_db_def alice_def example_ext_def)
qed

subsection \<open>Spending\<close>

text \<open>
  C2. For the user that the current user's id resolves to, \<open>spend_money\<close> fails with
  \<open>InsufficientFunds\<close> exactly when the amount is greater than the balance, and it
  fails in no other way. When it succeeds, that user's stored balance becomes the
  rounding to two places of the old balance minus the amount, the same value is
  returned, and exactly one transaction of type SPEND with that amount and that user id
  is appended to the ledger. An amount equal to the balance is accepted. The order of
  money is taken to be irreflexive (sort \<open>order\<close>) for the last statement only.
\<close>

theorem spend_money_spec:
  fixes X :: "('m::{order,plus,minus}) ext"
  assumes "get_user_by_id (u_id current_user) s = Some user"
  shows
    "(fst (spend_money X now spend_data current_user s) = Inl InsufficientFunds \<longleftrightarrow>
        u_balance user < sr_amount spend_data)
     \<and> (isl (fst (spend_money X now spend_data current_user s)) \<longleftrightarrow>
        u_balance user < sr_amount spend_data)
     \<and> (\<not> u_balance user < sr_amount spend_data \<longrightarrow>
        (\<exists>k<length (users_db s). users_db s ! k = user \<and>
           spend_money X now spend_data current_user s =
             (Inr \<lparr>br_user_id = u_id current_user, br_username = u_username current_user,
                   br_balance = py_round2 X (u_balance user - sr_amount spend_data)\<rparr>,
              s\<lparr>users_db := (users_db s)
                   [k := user\<lparr>u_balance := py_round2 X (u_balance user - sr_amount spend_data)\<rparr>],
                transactions_db := transactions_db s @
                   [\<lparr>t_id = get_next_id t_id (transactions_db s),
                     t_user_id = u_id current_user, t_timestamp = now, t_type = ''SPEND'',
                     t_amount = sr_amount spend_data,
                     t_description = sr_description spend_data, t_item_id = None\<rparr>]\<rparr>)))
     \<and> (sr_amount spend_data = u_balance user \<longrightarrow>
        \<not> isl (fst (spend_money X now spend_data current_user s)))"
proof -
  let ?b = "py_round2 X (u_balance user - sr_amount spend_data)"
  from assms have "find (\<lambda>u. u_id u = u_id current_user) (users_db s) = Some user"
    by (simp add: get_user_by_id_def)
  from set_balance_list_update [OF this, of ?b]
  obtain k where k: "k < length (users_db s)" "users_db s ! k = user"
    "set_balance (u_id current_user) ?b (users_db s) = (users_db s)[k := user\<lparr>u_balance := ?b\<rparr>]"
    by blast
  show ?thesis
  proof (cases "u_balance user < sr_amount spend_data")
    case True
    then have "sr_amount spend_data \<noteq> u_balance user" by auto
    with True show ?thesis
      by (simp add: spend_money_def update_user_balance_subtract [OF assms])
  next
    case False
    then have "spend_money X now spend_data current_user s =
             (Inr \<lparr>br_user_id = u_id current_user, br_username = u_username current_user,
                   br_balance = ?b\<rparr>,
              s\<lparr>users_db := (users_db s)[k := user\<lparr>u_balance := ?b\<rparr>],
                transactions_db := transactions_db s @
                   [\<lparr>t_id = get_next_id t_id (transactions_db s),
                     t_user_id = u_id current_user, t_timestamp = now, t_type = ''SPEND'',
                     t_amount = sr_amount spend_data,
                     t_description = sr_description spend_data, t_item_id = None\<rparr>]\<rparr>)"
      by (simp add: spend_money_def update_user_balance_subtract [OF assms] record_transaction_eq
          k(3) Let_def)
    with False k(1,2) show ?thesis by auto
  qed
qed

theorem spend_money_spec_witness:
  "spend_money example_ext 4 \<lparr>sr_amount = 89 / 2, sr_description = ''All of it''\<rparr>
     (hd (users_db after_scenario)) after_scenario =
     (Inr \<lparr>br_user_id = 1, br_username = ''alice'', br_balance = 0\<rparr>,
      after_scenario
        \<lparr>users_db := [\<lparr>u_id = 1, u_username = ''alice'',
                        u_hashed_password = ''bcrypt:secret1'', u_balance = 0\<rparr>],
         transactions_db := transactions_db after_scenario @
           [\<lparr>t_id = 4, t_user_id = 1, t_timestamp = 4, t_type = ''SPEND'', t_amount = 89 / 2,
             t_description = ''All of it'', t_item_id = None\<rparr>]\<rparr>)
   \<and> fst (spend_money example_ext 4 \<lparr>sr_amount = 1000, sr_description = ''General Spend''\<rparr>
          (hd (users_db after_scenario)) after_scenario) = Inl InsufficientFunds"
proof -
  let ?cu = "hd (users_db after_scenario)"
  let ?u = "\<lparr>u_id = 1, u_username = ''alice'', u_hashed_password = ''bcrypt:secret1'',
             u_balance = 89 / 2 :: rat\<rparr>"
  have cu: "?cu = ?u" by (simp add: after_scenario_value)
  have h: "get_user_by_id (u_id ?cu) after_scenario = Some ?u"
    by (simp add: after_scenario_value get_user_by_id_def)
  have len: "length (users_db after_scenario) = 1" by (simp add: after_scenario_value)
  have nid: "get_next_id t_id (transactions_db after_scenario) = 4"
    by (simp add: after_scenario_value)
  have r: "py_round2 example_ext 0 = 0"
    by (simp add: example_ext_def decimal_round2_def round_half_even_def)
  have us: "users_db after_scenario = [?u]" by (simp add: after_scenario_value)
  from spend_money_spec [OF h, of example_ext 4
      "\<lparr>sr_amount = 89 / 2, sr_description = ''All of it''\<rparr>"]
  have a: "spend_money example_ext 4 \<lparr>sr_amount = 89 / 2, sr_description = ''All of it''\<rparr>
     ?cu after_scenario =
     (Inr \<lparr>br_user_id = 1, br_username = ''alice'', br_balance = 0\<rparr>,
      after_scenario
        \<lparr>users_db := [\<lparr>u_id = 1, u_username = ''alice'',
                        u_hashed_password = ''bcrypt:secret1'', u_balance = 0\<rparr>],
         transactions_db := transactions_db after_scenario @
           [\<lparr>t_id = 4, t_user_id = 1, t_timestamp = 4, t_type = ''SPEND'', t_amount = 89 / 2,
             t_description = ''All of it'', t_item_id = None\<rparr>]\<rparr>)"
    by (simp add: cu nid r us)
  from spend_money_spec [OF h, of example_ext 4
      "\<lparr>sr_amount = 1000, sr_description = ''General Spend''\<rparr>"]
  have b: "fst (spend_money example_ext 4 \<lparr>sr_amount = 1000, sr_description = ''General Spend''\<rparr>
          ?cu after_scenario) = Inl InsufficientFunds"
    by simp
  from a b show ?thesis by blast
qed

subsection \<open>Buying\<close>

text \<open>
  C3. For the user that the current user's id resolves to: when no item has the requested
  id, \<open>buy_item\<close> fails with \<open>ItemNotFound\<close> and the state is unchanged; when the
  (first) item with that id costs more than the balance it fails with
  \<open>InsufficientFunds\<close>, state unchanged; otherwise the stored balance becomes the
  rounding to two places of the balance minus the price, and exactly one transaction of
  type BUY is appended, whose amount is the price and whose item id is the requested
  id.
\<close>

theorem buy_item_spec:
  fixes X :: "('m::{ord,plus,minus}) ext"
  assumes "get_user_by_id (u_id current_user) s = Some user"
  shows
    "((\<forall>i\<in>set (items_db s). i_id i \<noteq> item_id) \<longrightarrow>
        buy_item X now item_id current_user s = (Inl (ItemNotFound item_id), s))
     \<and> (\<forall>item. find (\<lambda>i. i_id i = item_id) (items_db s) = Some item \<longrightarrow>
          (u_balance user < i_price item \<longrightarrow>
             buy_item X now item_id current_user s = (Inl InsufficientFunds, s))
          \<and> (\<not> u_balance user < i_price item \<longrightarrow>
             (\<exists>k<length (users_db s). users_db s ! k = user \<and>
                buy_item X now item_id current_user s =
                  (Inr \<lparr>br_user_id = u_id current_user, br_username = u_username current_user,
                        br_balance = py_round2 X (u_balance user - i_price item)\<rparr>,
                   s\<lparr>users_db := (users_db s)
                        [k := user\<lparr>u_balance := py_round2 X (u_balance user - i_price item)\<rparr>],
                     transactions_db := transactions_db s @
                        [\<lparr>t_id = get_next_id t_id (transactions_db s),
                          t_user_id = u_id current_user, t_timestamp = now, t_type = ''BUY'',
                          t_amount = i_price item,
                          t_description = ''Purchased: '' @ i_name item,
                          t_item_id = Some item_id\<rparr>]\<rparr>))))"
proof (intro conjI allI impI)
  assume "\<forall>i\<in>set (items_db s). i_id i \<noteq> item_id"
  then have "find (\<lambda>i. i_id i = item_id) (items_db s) = None"
    by (simp add: find_None_iff)
  then show "buy_item X now item_id current_user s = (Inl (ItemNotFound item_id), s)"
    by (simp add: buy_item_def)
next
  fix item :: "'m item"
  assume "find (\<lambda>i. i_id i = item_id) (items_db s) = Some item"
    and "u_balance user < i_price item"
  then show "buy_item X now item_id current_user s = (Inl InsufficientFunds, s)"
    by (simp add: buy_item_def update_user_balance_subtract [OF assms])
next
  fix item :: "'m item"
  let ?b = "py_round2 X (u_balance user - i_price item)"
  assume item: "find (\<lambda>i. i_id i = item_id) (items_db s) = Some item"
    and enough: "\<not> u_balance user < i_price item"
  from assms have "find (\<lambda>u. u_id u = u_id current_user) (users_db s) = Some user"
    by (simp add: get_user_by_id_def)
  from set_balance_list_update [OF this, of ?b]
  obtain k where k: "k < length (users_db s)" "users_db s ! k = user"
    "set_balance (u_id current_user) ?b (users_db s) = (users_db s)[k := user\<lparr>u_balance := ?b\<rparr>]"
    by blast
  from item enough have "buy_item X now item_id current_user s =
      (Inr \<lparr>br_user_id = u_id current_user, br_username = u_username current_user,
            br_balance = ?b\<rparr>,
       s\<lparr>users_db := (users_db s)[k := user\<lparr>u_balance := ?b\<rparr>],
         transactions_db := transactions_db s @
            [\<lparr>t_id = get_next_id t_id (transactions_db s),
              t_user_id = u_id current_user, t_timestamp = now, t_type = ''BUY'',
              t_amount = i_price item, t_description = ''Purchased: '' @ i_name item,
              t_item_id = Some item_id\<rparr>]\<rparr>)"
    by (simp add: buy_item_def update_user_balance_subtract [OF assms] record_transaction_eq
        k(3) Let_def)
  with k(1,2) show "\<exists>k<length (users_db s). users_db s ! k = user \<and>
      buy_item X now item_id current_user s =
      (Inr \<lparr>br_user_id = u_id current_user, br_username = u_username current_user,
            br_balance = ?b\<rparr>,
       s\<lparr>users_db := (users_db s)[k := user\<lparr>u_balance := ?b\<rparr>],
         transactions_db := transactions_db s @
            [\<lparr>t_id = get_next_id t_id (transactions_db s),
              t_user_id = u_id current_user, t_timestamp = now, t_type = ''BUY'',
              t_amount = i_price item, t_description = ''Purchased: '' @ i_name item,
              t_item_id = Some item_id\<rparr>]\<rparr>)"
    by blast
qed

theorem buy_item_spec_witness:
  "buy_item example_ext 4 2 (hd (users_db after_scenario)) after_scenario =
     (Inr \<lparr>br_user_id = 1, br_username = ''alice'', br_balance = 19\<rparr>,
      after_scenario
        \<lparr>users_db := [\<lparr>u_id = 1, u_username = ''alice'',
                        u_hashed_password = ''bcrypt:secret1'', u_balance = 19\<rparr>],
         transactions_db := transactions_db after_scenario @
           [\<lparr>t_id = 4, t_user_id = 1, t_timestamp = 4, t_type = ''BUY'', t_amount = 51 / 2,
             t_description = ''Purchased: Coffee Mug'', t_item_id = Some 2\<rparr>]\<rparr>)
   \<and> buy_item example_ext 4 1 (hd (users_db after_scenario)) after_scenario =
        (Inl InsufficientFunds, after_scenario)
   \<and> buy_item example_ext 4 999 (hd (users_db after_scenario)) after_scenario =
        (Inl (ItemNotFound 999), after_scenario)"
proof -
  let ?cu = "hd (users_db after_scenario)"
  let ?u = "\<lparr>u_id = 1, u_username = ''alice'', u_hashed_password = ''bcrypt:secret1'',
             u_balance = 89 / 2 :: rat\<rparr>"
  have cu: "?cu = ?u" by (simp add: after_scenario_value)
  have h: "get_user_by_id (u_id ?cu) after_scenario = Some ?u"
    by (simp add: after_scenario_value get_user_by_id_def)
  have nid: "get_next_id t_id (transactions_db after_scenario) = 4"
    by (simp add: after_scenario_value)
  have r: "py_round2 example_ext 19 = 19"
    by (simp add: example_ext_def decimal_round2_def round_half_even_def)
  have us: "users_db after_scenario = [?u]" by (simp add: after_scenario_value)
  have it: "items_db after_scenario = seed_data" by (simp add: after_scenario_value)
  have f2: "find (\<lambda>i. i_id i = 2) (seed_data :: rat item list) =
      Some \<lparr>i_id = 2, i_name = ''Coffee Mug'', i_price = 51 / 2\<rparr>"
    and f1: "find (\<lambda>i. i_id i = 1) (seed_data :: rat item list) =
      Some \<lparr>i_id = 1, i_name = ''The Great Gatsby (Book)'', i_price = 50\<rparr>"
    and f999: "\<forall>i\<in>set (seed_data :: rat item list). i_id i \<noteq> 999"
    by (simp_all add: seed_data_def)
  from buy_item_spec [OF h, of 2 example_ext 4] f2
  have a: "buy_item example_ext 4 2 ?cu after_scenario =
     (Inr \<lparr>br_user_id = 1, br_username = ''alice'', br_balance = 19\<rparr>,
      after_scenario
        \<lparr>users_db := [\<lparr>u_id = 1, u_username = ''alice'',
                        u_hashed_password = ''bcrypt:secret1'', u_balance = 19\<rparr>],
         transactions_db := transactions_db after_scenario @
           [\<lparr>t_id = 4, t_user_id = 1, t_timestamp = 4, t_type = ''BUY'', t_amount = 51 / 2,
             t_description = ''Purchased: Coffee Mug'', t_item_id = Some 2\<rparr>]\<rparr>)"
    by (simp add: cu nid r us it)
  from buy_item_spec [OF h, of 1 example_ext 4] f1
  have b: "buy_item example_ext 4 1 ?cu after_scenario = (Inl InsufficientFunds, after_scenario)"
    by (simp add: it)
  from buy_item_spec [OF h, of 999 example_ext 4] f999
  have c: "buy_item example_ext 4 999 ?cu after_scenario =
      (Inl (ItemNotFound 999), after_scenario)"
    by (simp add: it)
  from a b c show ?thesis by blast
qed

subsection \<open>Operations other than ADD and SUBTRACT\<close>

text \<open>
  C10. For an existing user and an operation string that is neither 'ADD' nor
  'SUBTRACT', \<open>update_user_balance\<close> raises nothing, adds and subtracts nothing, and
  returns the user's balance rounded to two places; the state changes only in that this
  user's stored balance is replaced by its rounding.
\<close>

theorem update_user_balance_other_operation:
  fixes X :: "('m::{ord,plus,minus}) ext"
  assumes "get_user_by_id user_id s = Some user"
    and "operation \<noteq> ''ADD''" and "operation \<noteq> ''SUBTRACT''"
  shows "\<exists>k<length (users_db s). users_db s ! k = user \<and>
           update_user_balance X user_id amount operation s =
             (Inr (py_round2 X (u_balance user)),
              s\<lparr>users_db := (users_db s)[k := user\<lparr>u_balance := py_round2 X (u_balance user)\<rparr>]\<rparr>)"
proof -
  let ?b = "py_round2 X (u_balance user)"
  from assms(1) have "find (\<lambda>u. u_id u = user_id) (users_db s) = Some user"
    by (simp add: get_user_by_id_def)
  from set_balance_list_update [OF this, of ?b]
  obtain k where k: "k < length (users_db s)" "users_db s ! k = user"
    "set_balance user_id ?b (users_db s) = (users_db s)[k := user\<lparr>u_balance := ?b\<rparr>]"
    by blast
  from assms have "update_user_balance X user_id amount operation s =
      (Inr ?b, s\<lparr>users_db := (users_db s)[k := user\<lparr>u_balance := ?b\<rparr>]\<rparr>)"
    by (simp add: update_user_balance_def k(3) Let_def)
  with k(1,2) show ?thesis by blast
qed

theorem update_user_balance_other_operation_witness:
  "update_user_balance example_ext 1 5 ''MULTIPLY''
     \<lparr>users_db = [\<lparr>u_id = 1, u_username = ''bob'', u_hashed_password = ''bcrypt:hunter22'',
                    u_balance = 6173 / 500\<rparr>],
      items_db = [], transactions_db = []\<rparr> =
     (Inr (247 / 20),
      \<lparr>users_db = [\<lparr>u_id = 1, u_username = ''bob'', u_hashed_password = ''bcrypt:hunter22'',
                    u_balance = 247 / 20\<rparr>],
       items_db = [], transactions_db = []\<rparr>)"
proof -
  let ?u = "\<lparr>u_id = 1, u_username = ''bob'', u_hashed_password = ''bcrypt:hunter22'',
             u_balance = 6173 / 500 :: rat\<rparr>"
  let ?s = "\<lparr>users_db = [?u], items_db = [], transactions_db = []\<rparr>"
  have h: "get_user_by_id 1 ?s = Some ?u" by (simp add: get_user_by_id_def)
  have op: "''MULTIPLY'' \<noteq> ''ADD''" "''MULTIPLY'' \<noteq> ''SUBTRACT''" by simp_all
  have fl: "\<lfloor>6173 / 5 :: rat\<rfloor> = 1234" by (rule floor_unique) simp_all
  have r: "py_round2 example_ext (6173 / 500) = 247 / 20"
    by (simp add: example_ext_def decimal_round2_def round_half_even_def Let_def fl)
  from update_user_balance_other_operation [OF h op, of example_ext 5]
  show ?thesis by (simp add: r)
qed

subsection \<open>The session verifier\<close>

text \<open>
  C8, as the code has it. \<open>get_current_user\<close> has one failure, the 401
  \<open>InvalidCredential\<close>: it is raised when the token does not decode, when it carries no
  \<open>sub\<close> claim, and also when the claimed name resolves to no user; it never fails with
  \<open>UserNotFound\<close>. With a token that decodes to a name that resolves, it returns that
  user's record (the first user of that name).
\<close>

theorem verifier_one_failure:
  "(jwt_decode X now token = Inl JWTError \<longrightarrow>
      get_current_user X now token s = Inl InvalidCredential)
   \<and> (\<forall>p. jwt_decode X now token = Inr p \<and> sub p = None \<longrightarrow>
      get_current_user X now token s = Inl InvalidCredential)
   \<and> (\<forall>p username. jwt_decode X now token = Inr p \<and> sub p = Some username \<and>
        (\<forall>u\<in>set (users_db s). u_username u \<noteq> username) \<longrightarrow>
      get_current_user X now token s = Inl InvalidCredential)
   \<and> (\<forall>p username user. jwt_decode X now token = Inr p \<and> sub p = Some username \<and>
        get_user username s = Some user \<longrightarrow>
      get_current_user X now token s = Inr user \<and> user \<in> set (users_db s) \<and>
      u_username user = username)
   \<and> get_current_user X now token s \<noteq> Inl UserNotFound"
proof (intro conjI allI impI)
  assume "jwt_decode X now token = Inl JWTError"
  then show "get_current_user X now token s = Inl InvalidCredential"
    by (simp add: get_current_user_def)
next
  fix p
  assume "jwt_decode X now token = Inr p \<and> sub p = None"
  then show "get_current_user X now token s = Inl InvalidCredential"
    by (simp add: get_current_user_def)
next
  fix p username
  assume a: "jwt_decode X now token = Inr p \<and> sub p = Some username \<and>
    (\<forall>u\<in>set (users_db s). u_username u \<noteq> username)"
  then have "get_user username s = None"
    by (simp add: get_user_def find_None_iff)
  with a show "get_current_user X now token s = Inl InvalidCredential"
    by (simp add: get_current_user_def)
next
  fix p username and user :: "'a user"
  assume a: "jwt_decode X now token = Inr p \<and> sub p = Some username \<and>
    get_user username s = Some user"
  then show "get_current_user X now token s = Inr user"
    by (simp add: get_current_user_def)
  from a have "find (\<lambda>u. u_username u = username) (users_db s) = Some user"
    by (simp add: get_user_def)
  then obtain i where "i < length (users_db s)" "u_username (users_db s ! i) = username"
    "user = users_db s ! i"
    unfolding find_Some_iff by blast
  then show "user \<in> set (users_db s)" "u_username user = username"
    by simp_all
next
  show "get_current_user X now token s \<noteq> Inl UserNotFound"
    by (simp add: get_current_user_def split: sum.splits jwt_error.splits option.splits)
qed

theorem verifier_one_failure_witness:
  "get_current_user example_ext 4 [] after_scenario = Inl InvalidCredential
   \<and> get_current_user (example_ext\<lparr>jwt_decode := \<lambda>now token. Inr \<lparr>sub = None, exp = now\<rparr>\<rparr>)
        4 ''alice'' after_scenario = Inl InvalidCredential
   \<and> get_current_user example_ext 4 ''ghost'' after_scenario = Inl InvalidCredential
   \<and> get_current_user example_ext 4 ''alice'' after_scenario =
        Inr \<lparr>u_id = 1, u_username = ''alice'', u_hashed_password = ''bcrypt:secret1'',
             u_balance = 89 / 2\<rparr>"
proof -
  let ?u = "\<lparr>u_id = 1, u_username = ''alice'', u_hashed_password = ''bcrypt:secret1'',
             u_balance = 89 / 2 :: rat\<rparr>"
  let ?X = "example_ext\<lparr>jwt_decode := \<lambda>now token. Inr \<lparr>sub = None, exp = now\<rparr>\<rparr>"
  have d0: "jwt_decode example_ext 4 [] = Inl JWTError"
    and d1: "jwt_decode ?X 4 ''alice'' = Inr \<lparr>sub = None, exp = 4\<rparr>"
    and d2: "jwt_decode example_ext 4 ''ghost'' = Inr \<lparr>sub = Some ''ghost'', exp = 34\<rparr>"
    and d3: "jwt_decode example_ext 4 ''alice'' = Inr \<lparr>sub = Some ''alice'', exp = 34\<rparr>"
    by (simp_all add: example_ext_def)
  have g2: "\<forall>u\<in>set (users_db after_scenario). u_username u \<noteq> ''ghost''"
    and g3: "get_user ''alice'' after_scenario = Some ?u"
    by (simp_all add: after_scenario_value get_user_def)
  from verifier_one_failure [of example_ext 4 "[]" after_scenario] d0
  have a: "get_current_user example_ext 4 [] after_scenario = Inl InvalidCredential" by simp
  from verifier_one_failure [of ?X 4 "''alice''" after_scenario] d1
  have b: "get_current_user ?X 4 ''alice'' after_scenario = Inl InvalidCredential" by simp
  from verifier_one_failure [of example_ext 4 "''ghost''" after_scenario] d2 g2
  have c: "get_current_user example_ext 4 ''ghost'' after_scenario = Inl InvalidCredential"
    by simp
  from verifier_one_failure [of example_ext 4 "''alice''" after_scenario] d3 g3
  have d: "get_current_user example_ext 4 ''alice'' after_scenario = Inr ?u" by simp
  from a b c d show ?thesis by blast
qed

text \<open>
  The claim as stated fails: a token that decodes, for a name that no user has, is
  rejected with \<open>InvalidCredential\<close> (401), not with \<open>UserNotFound\<close> (404).
\<close>

theorem verifier_unknown_user_counterexample:
  "jwt_decode example_ext 0 ''ghost'' = Inr \<lparr>sub = Some ''ghost'', exp = 30\<rparr>
   \<and> get_user ''ghost'' (init_db seed_data :: rat db) = None
   \<and> get_current_user example_ext 0 ''ghost'' (init_db seed_data) = Inl InvalidCredential
   \<and> get_current_user example_ext 0 ''ghost'' (init_db seed_data) \<noteq> Inl UserNotFound
   \<and> status_code InvalidCredential = 401 \<and> status_code UserNotFound = 404"
  by (simp add: example_ext_def get_user_def init_db_def get_current_user_def)

subsection \<open>Check and write of a balance\<close>













end
